theory Spec2Isabelle
  imports Complex_Main "HOL-Library.Log_Nat"
begin

section \<open>Python values, exceptions and the observable world\<close>

text \<open>
  The module \<^verbatim>\<open>detect_encoding.py\<close> has two functions, \<^verbatim>\<open>detect_encoding\<close> and
  \<^verbatim>\<open>attempt_decode\<close>, and one global, the list \<^verbatim>\<open>CODECS\<close>. A Python \<^verbatim>\<open>bytes\<close> object is a
  list of \<^typ>\<open>char\<close> (a \<^typ>\<open>char\<close> is one byte, 0 to 255), a \<^verbatim>\<open>str\<close> holding a codec name or
  a message is a \<^typ>\<open>string\<close>.
\<close>

type_synonym bytes = "char list"

text \<open>
  The values a keyword argument can hold. A number is the rational it denotes: an \<^verbatim>\<open>int\<close>
  exactly, a \<^verbatim>\<open>float\<close> by its value.
\<close>

datatype pyval = PyNone | PyBool bool | PyNum rat | PyStr string

datatype py_error =
    AssertionError string
  | SystemExit
  | SyntaxError string
  | UnicodeDecodeError
  | LookupError
  | TypeError
  | OSError
  | MemoryError

datatype style = BRIGHT | RED | GREEN | RESET_ALL

text \<open>
  What a call does besides returning: \<^verbatim>\<open>os.path.getsize\<close>, \<^verbatim>\<open>open(file_path, 'rb')\<close>,
  the call of \<^verbatim>\<open>tokenize.detect_encoding\<close> on the open file, \<^verbatim>\<open>file.read()\<close>,
  \<^verbatim>\<open>file.readline()\<close>, a call of \<^verbatim>\<open>attempt_decode\<close> with a codec, and \<^verbatim>\<open>print\<close>
  with a colorama style and a text.
\<close>

datatype event =
    Getsize string
  | Open_rb string
  | Tokenize
  | Read_all
  | Read_line
  | Decode string
  | Print style string

text \<open>
  The world a call runs in: the readable files with their contents, and the log of what has
  been done so far, the oldest event first.
\<close>

record world =
  files :: "string \<rightharpoonup> bytes"
  trace :: "event list"

definition log :: "event list \<Rightarrow> world \<Rightarrow> world" where
  "log evs w = w\<lparr>trace := trace w @ evs\<rparr>"

text \<open>
  What the module takes from the interpreter and its standard library:
  \<^verbatim>\<open>sys.version_info[0]\<close> and \<^verbatim>\<open>[1]\<close>; \<^verbatim>\<open>tokenize.detect_encoding(file.readline)\<close>, given the
  file's name and contents, returning the encoding (\<^verbatim>\<open>token[0]\<close>) or raising; and
  \<^verbatim>\<open>text.decode(codec)\<close>, which returns (the decoded text is never used) or raises.
\<close>

record py_env =
  version_info :: "nat \<times> nat"
  tokenize_detect_encoding :: "string \<Rightarrow> bytes \<Rightarrow> py_error + string"
  bytes_decode :: "string \<Rightarrow> bytes \<Rightarrow> py_error + unit"

section \<open>The module\<close>

definition CODECS :: "string list" where
  "CODECS = [
    ''ascii'', ''utf-7'', ''utf-8-sig'', ''utf-8'', ''utf-16'', ''utf-16-be'', ''utf-16-le'', ''utf-32'', ''utf-32-be'',
    ''utf-32-le'', ''big5'', ''big5hkscs'', ''cp037'', ''cp273'', ''cp424'', ''cp437'', ''cp500'', ''cp720'', ''cp737'',
    ''cp775'', ''cp850'', ''cp852'', ''cp855'', ''cp856'', ''cp857'', ''cp858'', ''cp860'', ''cp861'', ''cp862'', ''cp863'',
    ''cp864'', ''cp865'', ''cp866'', ''cp869'', ''cp874'', ''cp875'', ''cp932'', ''cp949'', ''cp950'', ''cp1006'', ''cp1026'',
    ''cp1125'', ''cp1140'', ''cp1250'', ''cp1251'', ''cp1252'', ''cp1253'', ''cp1254'', ''cp1255'', ''cp1256'', ''cp1257'',
    ''cp1258'', ''cp65001'', ''euc-jp'', ''euc-jis-2004'', ''euc-jisx0213'', ''euc-kr'', ''gb2312'', ''gbk'', ''gb18030'',
    ''hz'', ''iso2022-jp'', ''iso2022-jp-1'', ''iso2022-jp-2'', ''iso2022-jp-2004'', ''iso2022-jp-3'',
    ''iso2022-jp-ext'', ''iso2022-kr'', ''latin-1'', ''iso8859-2'', ''iso8859-3'', ''iso8859-4'', ''iso8859-5'',
    ''iso8859-6'', ''iso8859-7'', ''iso8859-8'', ''iso8859-9'', ''iso8859-10'', ''iso8859-11'', ''iso8859-13'',
    ''iso8859-14'', ''iso8859-15'', ''iso8859-16'', ''johab'', ''koi8-r'', ''koi8-t'', ''koi8-u'', ''kz1048'',
    ''mac-cyrillic'', ''mac-greek'', ''mac-iceland'', ''mac-latin2'', ''mac-roman'', ''mac-turkish'', ''ptcp154'',
    ''shift-jis'', ''shift-jis-2004'', ''shift-jisx0213''
  ]"

subsection \<open>The keyword arguments\<close>

text \<open>
  \<^verbatim>\<open>params\<close> starts as the dictionary of the three defaults, and every keyword argument is
  stored in it under its key, a later one over an earlier one.
\<close>

definition default_params :: "string \<rightharpoonup> pyval" where
  "default_params =
     [''full_check'' \<mapsto> PyBool True, ''size'' \<mapsto> PyNone, ''verbose'' \<mapsto> PyBool False]"

definition make_params :: "(string \<times> pyval) list \<Rightarrow> (string \<rightharpoonup> pyval)" where
  "make_params kwargs = fold (\<lambda>(key, val) params. params(key \<mapsto> val)) kwargs default_params"

text \<open>
  \<^verbatim>\<open>params[key]\<close>. The module reads the keys \<^verbatim>\<open>'full_check'\<close>, \<^verbatim>\<open>'size'\<close> and
  \<^verbatim>\<open>'verbose'\<close> only, which \<^const>\<open>make_params\<close> always holds (lemma \<open>make_params_keys\<close>), so
  the \<^verbatim>\<open>KeyError\<close> of a missing key never arises.
\<close>

definition item :: "(string \<rightharpoonup> pyval) \<Rightarrow> string \<Rightarrow> pyval" where
  "item params key = (case params key of Some v \<Rightarrow> v | None \<Rightarrow> PyNone)"

text \<open>The truth value of an object in an \<^verbatim>\<open>if\<close>.\<close>

fun truthy :: "pyval \<Rightarrow> bool" where
  "truthy PyNone = False"
| "truthy (PyBool b) = b"
| "truthy (PyNum x) = (x \<noteq> 0)"
| "truthy (PyStr s) = (s \<noteq> [])"

text \<open>
  \<^verbatim>\<open>file_size < x\<close> for the float \<^verbatim>\<open>file_size\<close>: a comparison of numbers by value
  (\<^verbatim>\<open>True\<close> is 1 and \<^verbatim>\<open>False\<close> is 0), a \<^verbatim>\<open>TypeError\<close> against \<^verbatim>\<open>None\<close> or a string.
\<close>

fun float_lt :: "rat \<Rightarrow> pyval \<Rightarrow> py_error + bool" where
  "float_lt a (PyNum b) = Inr (a < b)"
| "float_lt a (PyBool b) = Inr (a < (if b then 1 else 0))"
| "float_lt a PyNone = Inl TypeError"
| "float_lt a (PyStr s) = Inl TypeError"

text \<open>
  A float is a double, and the model holds its exact value. \<open>to_double\<close> is the double
  nearest to a rational: the significand of 53 bits, rounded to the nearest integer, a tie
  going to the even one. The numbers here (file sizes in megabytes) are far from overflow and
  from the subnormal range.
\<close>

definition round_half_even :: "rat \<Rightarrow> int" where
  "round_half_even y =
     (let f = \<lfloor>y\<rfloor>; r = y - of_int f
      in if r < 1 / 2 then f else if 1 / 2 < r then f + 1 else if even f then f else f + 1)"

definition pow2 :: "int \<Rightarrow> rat" where
  "pow2 e = (if 0 \<le> e then 2 ^ nat e else 1 / 2 ^ nat (- e))"

text \<open>The exponent \<open>k\<close> with \<open>2\<^sup>k \<le> q < 2\<^sup>k\<^sup>+\<^sup>1\<close>, for a positive \<open>q\<close>.\<close>

definition binade :: "rat \<Rightarrow> int" where
  "binade q =
     (let (a, b) = quotient_of q; k = bitlen a - bitlen b
      in if pow2 k \<le> q then k else k - 1)"

definition to_double :: "rat \<Rightarrow> rat" where
  "to_double q =
     (if q = 0 then 0
      else (let e = binade \<bar>q\<bar> - 52
            in of_int (round_half_even (q / pow2 e)) * pow2 e))"

text \<open>
  \<^verbatim>\<open>round(x, ndigits)\<close> of a float: the multiple of \<open>10\<^sup>-\<^sup>n\<close> nearest to the exact value of
  \<open>x\<close>, a tie going to the even one, and then the double nearest to that decimal.
\<close>

definition py_round :: "rat \<Rightarrow> nat \<Rightarrow> rat" where
  "py_round x ndigits = to_double (of_int (round_half_even (x * 10 ^ ndigits)) / 10 ^ ndigits)"

text \<open>
  \<^verbatim>\<open>round(os.path.getsize(file_path) / 1048576, 4)\<close>, for a file of \<open>n\<close> bytes. The division
  of two integers gives the double nearest to the quotient.
\<close>

definition file_size_mb :: "nat \<Rightarrow> rat" where
  "file_size_mb n = py_round (to_double (of_nat n / 1048576)) 4"

subsection \<open>\<^verbatim>\<open>attempt_decode\<close>\<close>

text \<open>
  \<^verbatim>\<open>
  codec_found: bool = False
  try:
      text.decode(codec)
      codec_found = True
  except UnicodeDecodeError:
      pass
  finally:
      return codec_found
  \<close>
  The \<^verbatim>\<open>try\<close> block ends normally, with the \<^verbatim>\<open>UnicodeDecodeError\<close> handled, or with
  another exception pending. The \<^verbatim>\<open>finally\<close> clause then runs in all three cases, and a
  \<^verbatim>\<open>return\<close> in a \<^verbatim>\<open>finally\<close> clause discards a pending exception.
\<close>

definition attempt_decode :: "py_env \<Rightarrow> bytes \<Rightarrow> string \<Rightarrow> py_error + bool" where
  "attempt_decode env text codec =
     (let (codec_found, pending) =
        (case bytes_decode env codec text of
           Inr u \<Rightarrow> (True, None)
         | Inl e \<Rightarrow> if e = UnicodeDecodeError then (False, None) else (False, Some e))
      in Inr codec_found)"

subsection \<open>\<^verbatim>\<open>detect_encoding\<close>\<close>

text \<open>
  Lines 92 to 94:
  \<^verbatim>\<open>
  if params['size'] is not None:
      assert file_size < params['size'], 'The file size is greater than the set limit.'
      sys.exit()
  \<close>
  The result is the exception raised, if any.
\<close>

definition size_guard :: "(string \<rightharpoonup> pyval) \<Rightarrow> rat \<Rightarrow> py_error option" where
  "size_guard params file_size =
     (if item params ''size'' \<noteq> PyNone
      then (case float_lt file_size (item params ''size'') of
              Inl e \<Rightarrow> Some e
            | Inr below \<Rightarrow>
                if \<not> below
                then Some (AssertionError ''The file size is greater than the set limit.'')
                else Some SystemExit)
      else None)"

text \<open>\<^verbatim>\<open>needle in haystack\<close> for two strings.\<close>

fun contains :: "string \<Rightarrow> string \<Rightarrow> bool" where
  "contains needle [] = (needle = [])"
| "contains needle (c # cs) = (take (length needle) (c # cs) = needle \<or> contains needle cs)"

text \<open>\<^verbatim>\<open>x is False\<close>: only the object \<^verbatim>\<open>False\<close> itself is.\<close>

definition is_False :: "pyval \<Rightarrow> bool" where
  "is_False x = (x = PyBool False)"

text \<open>
  Line 104, the test that guards the \<^verbatim>\<open>raise\<close> of the handler:
  \<^verbatim>\<open>'invalid or missing encoding declaration for' in str(err) is False\<close>.
  Python chains comparison operators, \<^verbatim>\<open>in\<close> and \<^verbatim>\<open>is\<close> among them: \<^verbatim>\<open>a in b is c\<close> is
  \<^verbatim>\<open>(a in b) and (b is c)\<close>.
\<close>

definition reraise_test :: "string \<Rightarrow> bool" where
  "reraise_test err_str =
     (contains ''invalid or missing encoding declaration for'' err_str
      \<and> is_False (PyStr err_str))"

text \<open>
  Lines 96 to 113, the first \<^verbatim>\<open>with\<close> block. The result is the events, and the exception
  that leaves the block or the value of \<^verbatim>\<open>detected_codec\<close> after it (\<^verbatim>\<open>codec_known\<close> is
  \<^verbatim>\<open>True\<close> exactly when \<^verbatim>\<open>detected_codec\<close> was assigned, here as in the loop).
\<close>

definition check_cookie ::
  "py_env \<Rightarrow> (string \<rightharpoonup> pyval) \<Rightarrow> string \<Rightarrow> bytes \<Rightarrow> event list \<times> (py_error + pyval)" where
  "check_cookie env params file_path content =
     (case tokenize_detect_encoding env file_path content of
        Inr token0 \<Rightarrow> ([Open_rb file_path, Tokenize], Inr (PyStr token0))
      | Inl (SyntaxError err) \<Rightarrow>
          if reraise_test err
          then ([Open_rb file_path, Tokenize], Inl (SyntaxError err))
          else ([Open_rb file_path, Tokenize]
                @ (if truthy (item params ''verbose'')
                   then [Print BRIGHT [],
                         Print RED ''No encoding cookie present. Starting decode attempts...'']
                   else []),
                Inr PyNone)
      | Inl e \<Rightarrow> ([Open_rb file_path, Tokenize], Inl e))"

text \<open>\<^verbatim>\<open>file.readline()\<close> on a binary file: the bytes up to and with the first newline.\<close>

fun readline :: "bytes \<Rightarrow> bytes" where
  "readline [] = []"
| "readline (c # cs) = (if c = CHR 0x0A then [c] else c # readline cs)"

text \<open>Lines 115 to 120, the second \<^verbatim>\<open>with\<close> block: the events and \<^verbatim>\<open>contents\<close>.\<close>

definition read_contents ::
  "(string \<rightharpoonup> pyval) \<Rightarrow> string \<Rightarrow> bytes \<Rightarrow> event list \<times> bytes" where
  "read_contents params file_path content =
     (if truthy (item params ''full_check'')
      then ([Open_rb file_path, Read_all], content)
      else ([Open_rb file_path, Read_line], readline content))"

text \<open>
  Lines 123 to 136, one run of the \<^verbatim>\<open>for\<close> loop over the codecs left: the events, and the
  codec at which the loop broke, or \<^const>\<open>None\<close> when the list ran out.
\<close>

fun for_codecs ::
  "py_env \<Rightarrow> bool \<Rightarrow> bytes \<Rightarrow> string list \<Rightarrow> event list \<times> (py_error + string option)" where
  "for_codecs env verbose contents [] = ([], Inr None)"
| "for_codecs env verbose contents (codec # rest) =
     (case attempt_decode env contents codec of
        Inl e \<Rightarrow> ([Decode codec], Inl e)
      | Inr codec_known \<Rightarrow>
          (let evs = Decode codec
                 # (if verbose
                    then (if codec_known then [Print GREEN (codec @ '': True'')]
                          else [Print RED (codec @ '': False'')])
                    else [])
           in if codec_known then (evs, Inr (Some codec))
              else (case for_codecs env verbose contents rest of
                      (evs', r) \<Rightarrow> (evs @ evs', r))))"

text \<open>
  Lines 122 to 136, \<^verbatim>\<open>while codec_known is False:\<close> around the \<^verbatim>\<open>for\<close> loop. Not
  returning is the value \<^const>\<open>None\<close>. \<open>tr\<close> is the log so far.
\<close>

partial_function (option) while_loop ::
  "py_env \<Rightarrow> bool \<Rightarrow> bytes \<Rightarrow> bool \<Rightarrow> pyval \<Rightarrow> event list
     \<Rightarrow> (event list \<times> (py_error + pyval)) option" where
  "while_loop env verbose contents codec_known detected_codec tr =
     (if codec_known then Some (tr, Inr detected_codec)
      else (case for_codecs env verbose contents CODECS of
              (evs, Inl e) \<Rightarrow> Some (tr @ evs, Inl e)
            | (evs, Inr None) \<Rightarrow>
                while_loop env verbose contents False detected_codec (tr @ evs)
            | (evs, Inr (Some codec)) \<Rightarrow>
                while_loop env verbose contents True (PyStr codec) (tr @ evs)))"

declare while_loop.simps [code]

text \<open>
  The whole function. The result is \<^const>\<open>None\<close> when the call does not return, and
  otherwise the world after the call with the exception raised (\<^const>\<open>Inl\<close>) or the value
  returned (\<^const>\<open>Inr\<close>).
\<close>

definition detect_encoding ::
  "py_env \<Rightarrow> world \<Rightarrow> string \<Rightarrow> (string \<times> pyval) list \<Rightarrow> (world \<times> (py_error + pyval)) option" where
  "detect_encoding env w file_path kwargs =
     (let params = make_params kwargs in
      if \<not> (3 \<le> fst (version_info env) \<and> 7 \<le> snd (version_info env))
      then Some (w, Inl (AssertionError ''Python version must be at least 3.7''))
      else (case files w file_path of
              None \<Rightarrow> Some (log [Getsize file_path] w, Inl OSError)
            | Some content \<Rightarrow>
                (let file_size = file_size_mb (length content);
                     w1 = log [Getsize file_path] w
                 in case size_guard params file_size of
                      Some e \<Rightarrow> Some (w1, Inl e)
                    | None \<Rightarrow>
                        (case check_cookie env params file_path content of
                           (evs, Inl e) \<Rightarrow> Some (log evs w1, Inl e)
                         | (evs, Inr detected_codec) \<Rightarrow>
                             (case read_contents params file_path content of
                                (evs', contents) \<Rightarrow>
                                  (case while_loop env (truthy (item params ''verbose'')) contents
                                          (detected_codec \<noteq> PyNone) detected_codec
                                          (trace w1 @ evs @ evs') of
                                     None \<Rightarrow> None
                                   | Some (tr, Inl e) \<Rightarrow> Some (w\<lparr>trace := tr\<rparr>, Inl e)
                                   | Some (tr, Inr codec) \<Rightarrow>
                                       Some (w\<lparr>trace := tr @ [Print RESET_ALL []]\<rparr>,
                                             Inr codec)))))))"

section \<open>The standard library the module calls\<close>

text \<open>
  \<^verbatim>\<open>tokenize.detect_encoding\<close> and the codecs belong to CPython and not to the module. The
  theorems about the module hold for every \<^typ>\<open>py_env\<close>; the definitions below follow
  CPython's \<^verbatim>\<open>Lib/tokenize.py\<close> and its codecs as documented, and give the environment in
  which the module is run on concrete files.
\<close>

subsection \<open>UTF-8, ASCII and Latin-1\<close>

definition byte_in :: "nat \<Rightarrow> nat \<Rightarrow> char \<Rightarrow> bool" where
  "byte_in lo hi c = (lo \<le> of_char c \<and> of_char c \<le> hi)"

text \<open>
  The strict UTF-8 decoder accepts the well-formed byte sequences only: no overlong form, no
  surrogate, nothing above U+10FFFF.
\<close>

fun utf8_valid :: "bytes \<Rightarrow> bool" where
  "utf8_valid [] = True"
| "utf8_valid [a] = byte_in 0x00 0x7F a"
| "utf8_valid [a, b] =
     (if byte_in 0x00 0x7F a then utf8_valid [b]
      else byte_in 0xC2 0xDF a \<and> byte_in 0x80 0xBF b)"
| "utf8_valid [a, b, c] =
     (if byte_in 0x00 0x7F a then utf8_valid [b, c]
      else if byte_in 0xC2 0xDF a then byte_in 0x80 0xBF b \<and> utf8_valid [c]
      else (byte_in 0xE0 0xE0 a \<and> byte_in 0xA0 0xBF b
            \<or> byte_in 0xE1 0xEC a \<and> byte_in 0x80 0xBF b
            \<or> byte_in 0xED 0xED a \<and> byte_in 0x80 0x9F b
            \<or> byte_in 0xEE 0xEF a \<and> byte_in 0x80 0xBF b)
           \<and> byte_in 0x80 0xBF c)"
| "utf8_valid (a # b # c # d # r) =
     (if byte_in 0x00 0x7F a then utf8_valid (b # c # d # r)
      else if byte_in 0xC2 0xDF a then byte_in 0x80 0xBF b \<and> utf8_valid (c # d # r)
      else if byte_in 0xE0 0xEF a
      then (byte_in 0xE0 0xE0 a \<and> byte_in 0xA0 0xBF b
            \<or> byte_in 0xE1 0xEC a \<and> byte_in 0x80 0xBF b
            \<or> byte_in 0xED 0xED a \<and> byte_in 0x80 0x9F b
            \<or> byte_in 0xEE 0xEF a \<and> byte_in 0x80 0xBF b)
           \<and> byte_in 0x80 0xBF c \<and> utf8_valid (d # r)
      else (byte_in 0xF0 0xF0 a \<and> byte_in 0x90 0xBF b
            \<or> byte_in 0xF1 0xF3 a \<and> byte_in 0x80 0xBF b
            \<or> byte_in 0xF4 0xF4 a \<and> byte_in 0x80 0x8F b)
           \<and> byte_in 0x80 0xBF c \<and> byte_in 0x80 0xBF d \<and> utf8_valid r)"

definition BOM_UTF8 :: bytes where
  "BOM_UTF8 = [CHR 0xEF, CHR 0xBB, CHR 0xBF]"

text \<open>\<^verbatim>\<open>b.startswith(p)\<close>.\<close>

definition startswith :: "'a list \<Rightarrow> 'a list \<Rightarrow> bool" where
  "startswith b p = (take (length p) b = p)"

definition strict :: "bool \<Rightarrow> py_error + unit" where
  "strict ok = (if ok then Inr () else Inl UnicodeDecodeError)"

text \<open>
  \<^verbatim>\<open>b.decode(codec)\<close> for the codecs written out here: \<^verbatim>\<open>ascii\<close> (every byte below 128),
  \<^verbatim>\<open>utf-8-sig\<close> (UTF-8 after an optional byte order mark), \<^verbatim>\<open>utf-8\<close>, and \<^verbatim>\<open>latin-1\<close>
  (every byte is a character). Every other name is left to \<open>other\<close>.
\<close>

definition cpython_decode ::
  "(string \<Rightarrow> bytes \<Rightarrow> py_error + unit) \<Rightarrow> string \<Rightarrow> bytes \<Rightarrow> py_error + unit" where
  "cpython_decode other codec b =
     (if codec = ''ascii'' then strict (list_all (byte_in 0x00 0x7F) b)
      else if codec = ''utf-8-sig''
      then strict (utf8_valid (if startswith b BOM_UTF8 then drop 3 b else b))
      else if codec = ''utf-8'' then strict (utf8_valid b)
      else if codec = ''latin-1'' then Inr ()
      else other codec b)"

subsection \<open>\<^verbatim>\<open>tokenize.detect_encoding\<close>\<close>

text \<open>
  \<^verbatim>\<open>cookie_re = re.compile(r'^[ \t\f]*#.*?coding[:=][ \t]*([-\w.]+)', re.ASCII)\<close>, matched
  against the decoded line. Every character the pattern names is ASCII and \<^verbatim>\<open>.\<close> matches
  everything but a newline, so the match on the line's UTF-8 bytes is the same.
\<close>

definition is_blank :: "char \<Rightarrow> bool" where
  "is_blank c = (c = CHR '' '' \<or> c = CHR 0x09 \<or> c = CHR 0x0C)"

definition is_name_char :: "char \<Rightarrow> bool" where
  "is_name_char c =
     (c = CHR ''-'' \<or> c = CHR ''.'' \<or> c = CHR ''_''
      \<or> byte_in 0x30 0x39 c \<or> byte_in 0x41 0x5A c \<or> byte_in 0x61 0x7A c)"

text \<open>\<^verbatim>\<open>coding[:=][ \t]*([-\w.]+)\<close> at the start of \<open>s\<close>: the group, if it matches.\<close>

definition match_coding :: "string \<Rightarrow> string option" where
  "match_coding s =
     (if startswith s ''coding'' \<and> (startswith (drop 6 s) '':'' \<or> startswith (drop 6 s) ''='')
      then (let name = takeWhile is_name_char
                         (dropWhile (\<lambda>c. c = CHR '' '' \<or> c = CHR 0x09) (drop 7 s))
            in if name = [] then None else Some name)
      else None)"

text \<open>\<^verbatim>\<open>.*?\<close> before it: the leftmost place where the rest matches, no newline skipped.\<close>

fun search_coding :: "string \<Rightarrow> string option" where
  "search_coding [] = None"
| "search_coding (c # cs) =
     (case match_coding (c # cs) of
        Some name \<Rightarrow> Some name
      | None \<Rightarrow> if c = CHR 0x0A then None else search_coding cs)"

definition cookie_re_match :: "string \<Rightarrow> string option" where
  "cookie_re_match line =
     (case dropWhile is_blank line of
        [] \<Rightarrow> None
      | c # cs \<Rightarrow> if c = CHR ''#'' then search_coding cs else None)"

text \<open>\<^verbatim>\<open>blank_re = re.compile(br'^[ \t\f]*(?:[#\r\n]|$)', re.ASCII)\<close>.\<close>

definition blank_re_match :: "bytes \<Rightarrow> bool" where
  "blank_re_match line =
     (case dropWhile is_blank line of
        [] \<Rightarrow> True
      | c # cs \<Rightarrow> c = CHR ''#'' \<or> c = CHR 0x0D \<or> c = CHR 0x0A)"

text \<open>\<^verbatim>\<open>str.lower\<close> on an ASCII character.\<close>

definition lower :: "char \<Rightarrow> char" where
  "lower c = (if byte_in 0x41 0x5A c then char_of (of_char c + (32::nat)) else c)"

text \<open>
  \<^verbatim>\<open>
  def _get_normal_name(orig_enc):
      enc = orig_enc[:12].lower().replace("_", "-")
      if enc == "utf-8" or enc.startswith("utf-8-"):
          return "utf-8"
      if enc in ("latin-1", "iso-8859-1", "iso-latin-1") or \
         enc.startswith(("latin-1-", "iso-8859-1-", "iso-latin-1-")):
          return "iso-8859-1"
      return orig_enc
  \<close>
\<close>

definition get_normal_name :: "string \<Rightarrow> string" where
  "get_normal_name orig_enc =
     (let enc = map (\<lambda>c. if c = CHR ''_'' then CHR ''-'' else c) (map lower (take 12 orig_enc))
      in if enc = ''utf-8'' \<or> startswith enc ''utf-8-'' then ''utf-8''
         else if enc = ''latin-1'' \<or> enc = ''iso-8859-1'' \<or> enc = ''iso-latin-1''
                 \<or> startswith enc ''latin-1-'' \<or> startswith enc ''iso-8859-1-''
                 \<or> startswith enc ''iso-latin-1-''
         then ''iso-8859-1''
         else orig_enc)"

text \<open>\<^verbatim>\<open>repr\<close> of a file name without quotes, backslashes or unprintable characters.\<close>

definition repr :: "string \<Rightarrow> string" where
  "repr s = [CHR 0x27] @ s @ [CHR 0x27]"

text \<open>
  \<^verbatim>\<open>find_cookie(line)\<close>, the inner function of \<^verbatim>\<open>tokenize.detect_encoding\<close>. \<open>lookup\<close> says
  whether \<^verbatim>\<open>codecs.lookup\<close> finds the name; \<open>filename\<close> is the \<^verbatim>\<open>name\<close> of the open
  file. It raises a \<^verbatim>\<open>SyntaxError\<close>, returns \<^verbatim>\<open>None\<close> or returns the encoding.
\<close>

definition find_cookie ::
  "(string \<Rightarrow> bool) \<Rightarrow> string \<Rightarrow> bool \<Rightarrow> bytes \<Rightarrow> py_error + string option" where
  "find_cookie lookup filename bom_found line =
     (if \<not> utf8_valid line
      then Inl (SyntaxError (''invalid or missing encoding declaration for '' @ repr filename))
      else (case cookie_re_match line of
              None \<Rightarrow> Inr None
            | Some name \<Rightarrow>
                (let encoding = get_normal_name name
                 in if \<not> lookup encoding
                    then Inl (SyntaxError
                           (''unknown encoding for '' @ repr filename @ '': '' @ encoding))
                    else if bom_found
                    then (if encoding \<noteq> ''utf-8''
                          then Inl (SyntaxError
                                 (''encoding problem for '' @ repr filename @ '': utf-8''))
                          else Inr (Some (encoding @ ''-sig'')))
                    else Inr (Some encoding))))"

text \<open>
  \<^verbatim>\<open>tokenize.detect_encoding(file.readline)\<close> on a file just opened: it reads one line, and
  a second one when the first is blank or a comment; it returns the encoding of a cookie, and
  the default \<^verbatim>\<open>'utf-8'\<close> (\<^verbatim>\<open>'utf-8-sig'\<close> behind a byte order mark) when it finds none.
\<close>

definition cpython_detect_encoding ::
  "(string \<Rightarrow> bool) \<Rightarrow> string \<Rightarrow> bytes \<Rightarrow> py_error + string" where
  "cpython_detect_encoding lookup filename content =
     (let line1 = readline content;
          bom_found = startswith line1 BOM_UTF8;
          first = (if bom_found then drop 3 line1 else line1);
          default = (if bom_found then ''utf-8-sig'' else ''utf-8'')
      in if first = [] then Inr default
         else (case find_cookie lookup filename bom_found first of
                 Inl e \<Rightarrow> Inl e
               | Inr (Some encoding) \<Rightarrow> Inr encoding
               | Inr None \<Rightarrow>
                   if \<not> blank_re_match first then Inr default
                   else (let second = readline (drop (length line1) content)
                         in if second = [] then Inr default
                            else (case find_cookie lookup filename bom_found second of
                                    Inl e \<Rightarrow> Inl e
                                  | Inr (Some encoding) \<Rightarrow> Inr encoding
                                  | Inr None \<Rightarrow> Inr default))))"

text \<open>
  A CPython 3.7: \<open>lookup\<close> is its codec registry, \<open>other\<close> its codecs beyond the four
  above.
\<close>

definition cpython ::
  "(string \<Rightarrow> bool) \<Rightarrow> (string \<Rightarrow> bytes \<Rightarrow> py_error + unit) \<Rightarrow> py_env" where
  "cpython lookup other =
     \<lparr>version_info = (3, 7),
      tokenize_detect_encoding = cpython_detect_encoding lookup,
      bytes_decode = cpython_decode other\<rparr>"

text \<open>A registry that knows the candidate codecs and the normal name of Latin-1.\<close>

definition candidates_lookup :: "string \<Rightarrow> bool" where
  "candidates_lookup name = (name = ''iso-8859-1'' \<or> name \<in> set CODECS)"

text \<open>An interpreter none of whose codecs can be found.\<close>

definition no_codecs :: "string \<Rightarrow> bytes \<Rightarrow> py_error + unit" where
  "no_codecs codec b = Inl LookupError"



text \<open>A file system holding one file.\<close>

definition one_file :: "string \<Rightarrow> bytes \<Rightarrow> world" where
  "one_file name content = \<lparr>files = [name \<mapsto> content], trace = []\<rparr>"

text \<open>The codecs of the decode attempts in a log, in order.\<close>

fun decode_attempts :: "event list \<Rightarrow> string list" where
  "decode_attempts [] = []"
| "decode_attempts (Decode codec # evs) = codec # decode_attempts evs"
| "decode_attempts (ev # evs) = decode_attempts evs"

section \<open>Properties of the module\<close>

subsection \<open>The parts\<close>

lemma make_params_keys_aux:
  "m key \<noteq> None \<Longrightarrow> fold (\<lambda>(key, val) params. params(key \<mapsto> val)) kwargs m key \<noteq> None"
  by (induction kwargs arbitrary: m) (auto split: prod.splits)

lemma make_params_keys:
  "key \<in> {''full_check'', ''size'', ''verbose''} \<Longrightarrow> make_params kwargs key \<noteq> None"
  unfolding make_params_def
  by (rule make_params_keys_aux) (auto simp: default_params_def)

lemma reraise_test_False: "reraise_test err = False"
  by (simp add: reraise_test_def is_False_def)

lemma attempt_decode_eq:
  "attempt_decode env text codec = Inr (bytes_decode env codec text = Inr ())"
  by (simp add: attempt_decode_def split: sum.splits)

lemma for_codecs_result:
  "snd (for_codecs env verbose contents cs)
     = Inr (find (\<lambda>codec. bytes_decode env codec contents = Inr ()) cs)"
proof (induction cs)
  case Nil
  show ?case by simp
next
  case (Cons codec rest)
  obtain evs r where fc: "for_codecs env verbose contents rest = (evs, r)"
    by (cases "for_codecs env verbose contents rest")
  with Cons show ?case by (simp add: attempt_decode_eq Let_def)
qed

lemma while_loop_Some_D:
  assumes "while_loop env verbose contents codec_known detected_codec tr = Some y"
  shows "codec_known \<or> snd (for_codecs env verbose contents CODECS) \<noteq> Inr None"
proof (rule while_loop.raw_induct
    [where P = "\<lambda>env verbose contents codec_known detected_codec tr y.
                  codec_known \<or> snd (for_codecs env verbose contents CODECS) \<noteq> Inr None",
     OF _ assms])
  fix f env verbose contents codec_known detected_codec tr y
  assume IH: "\<And>env verbose contents codec_known detected_codec tr y.
           f env verbose contents codec_known detected_codec tr = Some y \<Longrightarrow>
           codec_known \<or> snd (for_codecs env verbose contents CODECS) \<noteq> Inr None"
    and step: "(if codec_known then Some (tr, Inr detected_codec)
      else (case for_codecs env verbose contents CODECS of
              (evs, Inl e) \<Rightarrow> Some (tr @ evs, Inl e)
            | (evs, Inr None) \<Rightarrow> f env verbose contents False detected_codec (tr @ evs)
            | (evs, Inr (Some codec)) \<Rightarrow>
                f env verbose contents True (PyStr codec) (tr @ evs))) = Some y"
  show "codec_known \<or> snd (for_codecs env verbose contents CODECS) \<noteq> Inr None"
  proof (cases codec_known)
    case True
    then show ?thesis by simp
  next
    case False
    obtain evs r where fc: "for_codecs env verbose contents CODECS = (evs, r)"
      by (cases "for_codecs env verbose contents CODECS")
    show ?thesis
    proof (cases "r = Inr None")
      case True
      with step False fc
      have "f env verbose contents False detected_codec (tr @ evs) = Some y" by simp
      from IH[OF this] show ?thesis by simp
    next
      case False
      with fc show ?thesis by simp
    qed
  qed
qed

lemma while_loop_never:
  assumes "snd (for_codecs env verbose contents CODECS) = Inr None"
  shows "while_loop env verbose contents False detected_codec tr = None"
proof (cases "while_loop env verbose contents False detected_codec tr")
  case None
  then show ?thesis .
next
  case (Some y)
  from while_loop_Some_D[OF this] assms show ?thesis by simp
qed

lemma while_loop_closed:
  "while_loop env verbose contents codec_known detected_codec tr =
     (if codec_known then Some (tr, Inr detected_codec)
      else (case for_codecs env verbose contents CODECS of
              (evs, Inl e) \<Rightarrow> Some (tr @ evs, Inl e)
            | (evs, Inr None) \<Rightarrow> None
            | (evs, Inr (Some codec)) \<Rightarrow> Some (tr @ evs, Inr (PyStr codec))))"
proof (cases codec_known)
  case True
  then show ?thesis by (subst while_loop.simps) simp
next
  case False
  obtain evs r where fc: "for_codecs env verbose contents CODECS = (evs, r)"
    by (cases "for_codecs env verbose contents CODECS")
  show ?thesis
  proof (cases r)
    case (Inl e)
    with False fc show ?thesis by (subst while_loop.simps) simp
  next
    case (Inr found)
    show ?thesis
    proof (cases found)
      case None
      with fc Inr have "snd (for_codecs env verbose contents CODECS) = Inr None" by simp
      from while_loop_never[OF this] False fc Inr None show ?thesis by simp
    next
      case (Some codec)
      have "while_loop env verbose contents True (PyStr codec) (tr @ evs)
              = Some (tr @ evs, Inr (PyStr codec))"
        by (subst while_loop.simps) simp
      with False fc Inr Some show ?thesis by (subst while_loop.simps) simp
    qed
  qed
qed


lemma size_guard_unset: "item params ''size'' = PyNone \<Longrightarrow> size_guard params file_size = None"
  by (simp add: size_guard_def)

lemma size_guard_set: "item params ''size'' \<noteq> PyNone \<Longrightarrow> \<exists>e. size_guard params file_size = Some e"
  by (simp add: size_guard_def split: sum.splits)

lemma check_cookie_declared:
  "tokenize_detect_encoding env file_path content = Inr name \<Longrightarrow>
   check_cookie env params file_path content = ([Open_rb file_path, Tokenize], Inr (PyStr name))"
  by (simp add: check_cookie_def)

lemma check_cookie_syntax_error:
  "tokenize_detect_encoding env file_path content = Inl (SyntaxError msg) \<Longrightarrow>
   check_cookie env params file_path content =
     ([Open_rb file_path, Tokenize]
      @ (if truthy (item params ''verbose'')
         then [Print BRIGHT [],
               Print RED ''No encoding cookie present. Starting decode attempts...'']
         else []),
      Inr PyNone)"
  by (simp add: check_cookie_def reraise_test_False)

lemma detect_encoding_of_declaration:
  assumes "3 \<le> fst (version_info env)" and "7 \<le> snd (version_info env)"
    and "files w file_path = Some content"
    and "item (make_params kwargs) ''size'' = PyNone"
    and "tokenize_detect_encoding env file_path content = Inr name"
  shows "detect_encoding env w file_path kwargs =
           Some (w\<lparr>trace := trace w @
                   [Getsize file_path, Open_rb file_path, Tokenize, Open_rb file_path,
                    if truthy (item (make_params kwargs) ''full_check'') then Read_all
                    else Read_line,
                    Print RESET_ALL []]\<rparr>,
                 Inr (PyStr name))"
  using assms
  by (simp add: detect_encoding_def size_guard_unset check_cookie_declared read_contents_def
      while_loop_closed log_def)

lemma detect_encoding_of_syntax_error:
  assumes "3 \<le> fst (version_info env)" and "7 \<le> snd (version_info env)"
    and "files w file_path = Some content"
    and "item (make_params kwargs) ''size'' = PyNone"
    and "tokenize_detect_encoding env file_path content = Inl (SyntaxError msg)"
  shows "\<exists>tr. detect_encoding env w file_path kwargs =
           (case find (\<lambda>codec. bytes_decode env codec
                          (snd (read_contents (make_params kwargs) file_path content)) = Inr ())
                   CODECS of
              None \<Rightarrow> None
            | Some codec \<Rightarrow> Some (w\<lparr>trace := tr\<rparr>, Inr (PyStr codec)))"
proof -
  define params where "params = make_params kwargs"
  define verbose where "verbose = truthy (item params ''verbose'')"
  obtain evs' contents where rc: "read_contents params file_path content = (evs', contents)"
    by (cases "read_contents params file_path content")
  obtain evs r where fc: "for_codecs env verbose contents CODECS = (evs, r)"
    by (cases "for_codecs env verbose contents CODECS")
  have r: "r = Inr (find (\<lambda>codec. bytes_decode env codec contents = Inr ()) CODECS)"
    using for_codecs_result[of env verbose contents CODECS] fc by simp
  obtain evs0 where cc: "check_cookie env params file_path content = (evs0, Inr PyNone)"
    using check_cookie_syntax_error[OF assms(5), of params] by simp
  have "detect_encoding env w file_path kwargs =
          (case find (\<lambda>codec. bytes_decode env codec contents = Inr ()) CODECS of
             None \<Rightarrow> None
           | Some codec \<Rightarrow>
               Some (w\<lparr>trace := trace w @ [Getsize file_path] @ evs0 @ evs' @ evs
                                  @ [Print RESET_ALL []]\<rparr>,
                     Inr (PyStr codec)))"
    using assms(1-4) rc fc r cc
    by (simp add: detect_encoding_def params_def[symmetric] verbose_def[symmetric]
        size_guard_unset while_loop_closed log_def split: option.splits)
  thus ?thesis using rc by (auto simp: params_def split: option.splits)
qed

lemma detect_encoding_files:
  "detect_encoding env w file_path kwargs = Some (w1, r) \<Longrightarrow> files w1 = files w"
  by (auto simp: detect_encoding_def while_loop_closed Let_def log_def
      split: if_splits option.splits prod.splits sum.splits)

lemma detect_encoding_trace_indep:
  "files w' = files w \<Longrightarrow>
   map_option snd (detect_encoding env w' file_path kwargs)
     = map_option snd (detect_encoding env w file_path kwargs)"
  by (simp add: detect_encoding_def while_loop_closed Let_def log_def
      split: option.splits prod.splits sum.splits)

subsection \<open>Evaluating the module on a file\<close>

lemma decode_attempts_append:
  "decode_attempts (xs @ ys) = decode_attempts xs @ decode_attempts ys"
  by (induction xs rule: decode_attempts.induct) simp_all

lemmas params_eval = make_params_def default_params_def item_def

lemmas module_eval =
  detect_encoding_def size_guard_def check_cookie_def read_contents_def while_loop_closed
  log_def attempt_decode_eq reraise_test_False

lemmas cpython_eval =
  cpython_def cpython_decode_def cpython_detect_encoding_def find_cookie_def
  cookie_re_match_def blank_re_match_def match_coding_def get_normal_name_def
  is_blank_def is_name_char_def byte_in_def startswith_def BOM_UTF8_def strict_def
  repr_def lower_def candidates_lookup_def no_codecs_def one_file_def

subsection \<open>Where the result \<^verbatim>\<open>'utf-8'\<close> comes from\<close>

text \<open>
  \<^verbatim>\<open>'utf-8-sig'\<close> stands before \<^verbatim>\<open>'utf-8'\<close> in \<^verbatim>\<open>CODECS\<close> and decodes everything that
  \<^verbatim>\<open>'utf-8'\<close> decodes, so the trial decoding never ends at \<^verbatim>\<open>'utf-8'\<close>: that result is
  always the answer of the declaration scan.
\<close>

lemma check_cookie_other_error:
  "tokenize_detect_encoding env file_path content = Inl e \<Longrightarrow> \<forall>msg. e \<noteq> SyntaxError msg \<Longrightarrow>
   check_cookie env params file_path content = ([Open_rb file_path, Tokenize], Inl e)"
  by (cases e) (simp_all add: check_cookie_def)

lemma CODECS_head:
  "CODECS = ''ascii'' # ''utf-7'' # ''utf-8-sig'' # ''utf-8'' # drop 4 CODECS"
  by (simp add: CODECS_def)

lemma find_utf8:
  assumes "find P CODECS = Some ''utf-8''"
  shows "P ''utf-8'' \<and> \<not> P ''utf-8-sig''"
proof -
  have p: "P ''utf-8''"
    using assms by (auto simp: find_Some_iff)
  from assms have "find P (''ascii'' # ''utf-7'' # ''utf-8-sig'' # ''utf-8'' # drop 4 CODECS)
                     = Some ''utf-8''"
    using CODECS_head by simp
  then have "\<not> P ''utf-8-sig''"
    by (auto split: if_splits)
  with p show ?thesis by simp
qed

lemma utf8_valid_after_bom:
  "utf8_valid (CHR 0xEF # CHR 0xBB # CHR 0xBF # r) = utf8_valid r"
  by (cases r) (simp_all add: byte_in_def)

lemma utf8_sig_accepts_utf8:
  "utf8_valid b \<Longrightarrow> utf8_valid (if startswith b BOM_UTF8 then drop 3 b else b)"
proof (cases "startswith b BOM_UTF8")
  case False
  then show "utf8_valid b \<Longrightarrow> ?thesis" by simp
next
  case True
  then have "b = CHR 0xEF # CHR 0xBB # CHR 0xBF # drop 3 b"
    by (metis BOM_UTF8_def append_take_drop_id startswith_def length_Cons list.size(3)
        numeral_3_eq_3 append_Cons append_Nil)
  then show "utf8_valid b \<Longrightarrow> ?thesis"
    using True utf8_valid_after_bom[of "drop 3 b"] by simp
qed

lemma cpython_utf8_sig:
  "bytes_decode (cpython lookup other) ''utf-8'' b = Inr () \<Longrightarrow>
   bytes_decode (cpython lookup other) ''utf-8-sig'' b = Inr ()"
  using utf8_sig_accepts_utf8[of b]
  by (auto simp: cpython_def cpython_decode_def strict_def split: if_splits)

lemma utf8_only_from_declaration:
  assumes sig: "\<And>b. bytes_decode env ''utf-8'' b = Inr () \<Longrightarrow> bytes_decode env ''utf-8-sig'' b = Inr ()"
    and res: "detect_encoding env w file_path kwargs = Some (w1, Inr (PyStr ''utf-8''))"
  shows "\<exists>content. files w file_path = Some content
           \<and> tokenize_detect_encoding env file_path content = Inr ''utf-8''
           \<and> 3 \<le> fst (version_info env) \<and> 7 \<le> snd (version_info env)
           \<and> item (make_params kwargs) ''size'' = PyNone"
proof -
  have v: "3 \<le> fst (version_info env)" "7 \<le> snd (version_info env)"
    using res by (auto simp: detect_encoding_def Let_def split: if_splits)
  obtain content where f: "files w file_path = Some content"
    using res v by (cases "files w file_path") (auto simp: detect_encoding_def Let_def)
  have s: "item (make_params kwargs) ''size'' = PyNone"
  proof (rule ccontr)
    assume "item (make_params kwargs) ''size'' \<noteq> PyNone"
    from size_guard_set[OF this, of "file_size_mb (length content)"]
    show False using res v f by (auto simp: detect_encoding_def Let_def)
  qed
  show ?thesis
  proof (cases "tokenize_detect_encoding env file_path content")
    case (Inr name)
    from detect_encoding_of_declaration[OF v f s Inr] res have "name = ''utf-8''" by simp
    with Inr v f s show ?thesis by simp
  next
    case (Inl e)
    show ?thesis
    proof (cases "\<exists>msg. e = SyntaxError msg")
      case True
      then obtain msg where "tokenize_detect_encoding env file_path content = Inl (SyntaxError msg)"
        using Inl by auto
      from detect_encoding_of_syntax_error[OF v f s this] res
      have "find (\<lambda>codec. bytes_decode env codec
                     (snd (read_contents (make_params kwargs) file_path content)) = Inr ()) CODECS
              = Some ''utf-8''"
        by (auto split: option.splits)
      from find_utf8[OF this] sig show ?thesis by blast
    next
      case False
      then have "\<forall>msg. e \<noteq> SyntaxError msg" by simp
      from check_cookie_other_error[OF Inl this, of "make_params kwargs"] res v f s
      show ?thesis by (simp add: detect_encoding_def Let_def size_guard_unset)
    qed
  qed
qed

subsection \<open>The declaration scan and the codecs of CPython\<close>

text \<open>
  For a cookie on the first line the scan returns the declared name in its normal form. And
  on a CPython the trial decoding always ends, since \<^verbatim>\<open>'latin-1'\<close> decodes every byte
  string.
\<close>

lemma cpython_cookie_first_line:
  assumes "cookie_re_match (readline content) = Some name"
    and "utf8_valid (readline content)"
    and "lookup (get_normal_name name)"
  shows "cpython_detect_encoding lookup filename content = Inr (get_normal_name name)"
proof -
  have nb: "\<not> startswith (readline content) BOM_UTF8"
  proof
    assume "startswith (readline content) BOM_UTF8"
    then obtain r where "readline content = CHR 0xEF # r"
      by (cases "readline content") (auto simp: startswith_def BOM_UTF8_def)
    with assms(1) show False
      by (simp add: cookie_re_match_def is_blank_def)
  qed
  have ne: "readline content \<noteq> []"
    using assms(1) by (auto simp: cookie_re_match_def)
  show ?thesis
    using assms nb ne
    by (simp add: cpython_detect_encoding_def find_cookie_def Let_def)
qed

lemma cpython_trial_decoding_ends:
  "find (\<lambda>codec. bytes_decode (cpython lookup other) codec contents = Inr ()) CODECS \<noteq> None"
proof -
  have "''latin-1'' \<in> set CODECS"
    by (simp add: CODECS_def)
  moreover have "bytes_decode (cpython lookup other) ''latin-1'' contents = Inr ()"
    by (simp add: cpython_def cpython_decode_def)
  ultimately show ?thesis
    by (auto simp: find_None_iff)
qed

subsection \<open>The size check on floats\<close>

text \<open>
  The size check compares two doubles by their values. A file of 64 bytes has the size
  \<^verbatim>\<open>0.0001\<close>, the double nearest to one ten-thousandth; with \<^verbatim>\<open>size=0.0001\<close>, the same
  double, the size is not below the limit and the \<^verbatim>\<open>assert\<close> fails.
\<close>

lemma detect_encoding_not_below_limit:
  assumes "3 \<le> fst (version_info env)" and "7 \<le> snd (version_info env)"
    and "files w file_path = Some content"
    and "item (make_params kwargs) ''size'' = PyNum limit"
    and "\<not> file_size_mb (length content) < limit"
  shows "detect_encoding env w file_path kwargs
           = Some (log [Getsize file_path] w,
                   Inl (AssertionError ''The file size is greater than the set limit.''))"
  using assms
  by (simp add: detect_encoding_def size_guard_def)

lemma size_equal_to_limit_asserts:
  "detect_encoding (cpython lookup other)
     (one_file ''t.txt'' ''0123456789012345678901234567890123456789012345678901234567890123'')
     ''t.txt'' [(''size'', PyNum (to_double (1 / 10000)))]
   = Some (\<lparr>files = [''t.txt'' \<mapsto>
                      ''0123456789012345678901234567890123456789012345678901234567890123''],
            trace = [Getsize ''t.txt'']\<rparr>,
           Inl (AssertionError ''The file size is greater than the set limit.''))"
proof -
  let ?content = "''0123456789012345678901234567890123456789012345678901234567890123''"
  have n: "file_size_mb (length ?content) = 7378697629483821 / 73786976294838206464"
    by code_simp
  have d: "to_double (1 / 10000) = 7378697629483821 / 73786976294838206464"
    by code_simp
  have lt: "\<not> file_size_mb (length ?content) < to_double (1 / 10000)"
    unfolding n d by simp
  have s: "item (make_params [(''size'', PyNum (to_double (1 / 10000)))]) ''size''
             = PyNum (to_double (1 / 10000))"
    by (simp add: params_eval)
  have f: "files (one_file ''t.txt'' ?content) ''t.txt'' = Some ?content"
    by (simp add: one_file_def)
  have v: "3 \<le> fst (version_info (cpython lookup other))"
          "7 \<le> snd (version_info (cpython lookup other))"
    by (simp_all add: cpython_def)
  have w: "log [Getsize ''t.txt''] (one_file ''t.txt'' ?content)
             = \<lparr>files = [''t.txt'' \<mapsto> ?content], trace = [Getsize ''t.txt'']\<rparr>"
    by (simp add: log_def one_file_def)
  from detect_encoding_not_below_limit[OF v f s lt] w show ?thesis
    by (simp only:)
qed


section \<open>The claims\<close>

text \<open>
  Claim C1: for every file without an encoding declaration, \<^verbatim>\<open>detect_encoding\<close> returns the
  first codec of \<^verbatim>\<open>CODECS\<close> that decodes the sampled bytes, and \<^verbatim>\<open>'ascii'\<close> for an empty
  file. The module does not do this. \<^verbatim>\<open>tokenize.detect_encoding\<close> raises no
  \<^verbatim>\<open>SyntaxError\<close> for a file without a cookie whose first lines are UTF-8: it returns its
  default, \<^verbatim>\<open>'utf-8'\<close>. So the module returns \<^verbatim>\<open>'utf-8'\<close> for the empty file and for the
  file \<^verbatim>\<open>b'hello'\<close>, with no decode attempt in the log, although \<^verbatim>\<open>'ascii'\<close>, the first
  candidate, decodes both.
\<close>

theorem no_cookie_yields_utf8_not_ascii:
  "detect_encoding (cpython lookup other) (one_file ''empty.txt'' []) ''empty.txt'' []
     = Some (\<lparr>files = [''empty.txt'' \<mapsto> []],
              trace = [Getsize ''empty.txt'', Open_rb ''empty.txt'', Tokenize,
                       Open_rb ''empty.txt'', Read_all, Print RESET_ALL []]\<rparr>,
             Inr (PyStr ''utf-8''))
   \<and> detect_encoding (cpython lookup other) (one_file ''a.txt'' ''hello'') ''a.txt'' []
     = Some (\<lparr>files = [''a.txt'' \<mapsto> ''hello''],
              trace = [Getsize ''a.txt'', Open_rb ''a.txt'', Tokenize,
                       Open_rb ''a.txt'', Read_all, Print RESET_ALL []]\<rparr>,
             Inr (PyStr ''utf-8''))
   \<and> bytes_decode (cpython lookup other) ''ascii'' [] = Inr ()
   \<and> bytes_decode (cpython lookup other) ''ascii'' ''hello'' = Inr ()"
  by (simp add: module_eval params_eval cpython_eval)

text \<open>
  Claim C2: for every file whose leading lines hold a valid cookie that names a known codec,
  \<^verbatim>\<open>detect_encoding\<close> returns the declared name. It returns what the declaration scan
  returns, which is not always the declared name: for \<^verbatim>\<open>'utf-8'\<close> declared behind a UTF-8
  byte order mark the scan, and so the module, returns \<^verbatim>\<open>'utf-8-sig'\<close>, another codec, and
  for \<^verbatim>\<open>'latin-1'\<close> it returns the normal name \<^verbatim>\<open>'iso-8859-1'\<close>.
\<close>

theorem cookie_behind_bom_yields_utf8_sig:
  "cookie_re_match (drop 3 (readline (BOM_UTF8 @ ''# coding: utf-8'' @ [CHR 0x0A])))
     = Some ''utf-8''
   \<and> candidates_lookup ''utf-8''
   \<and> detect_encoding (cpython candidates_lookup no_codecs)
        (one_file ''b.py'' (BOM_UTF8 @ ''# coding: utf-8'' @ [CHR 0x0A])) ''b.py'' []
     = Some (\<lparr>files = [''b.py'' \<mapsto> BOM_UTF8 @ ''# coding: utf-8'' @ [CHR 0x0A]],
              trace = [Getsize ''b.py'', Open_rb ''b.py'', Tokenize, Open_rb ''b.py'', Read_all,
                       Print RESET_ALL []]\<rparr>,
             Inr (PyStr ''utf-8-sig''))
   \<and> cookie_re_match (readline (''# coding: latin-1'' @ [CHR 0x0A])) = Some ''latin-1''
   \<and> candidates_lookup ''latin-1''
   \<and> detect_encoding (cpython candidates_lookup no_codecs)
        (one_file ''l.py'' (''# coding: latin-1'' @ [CHR 0x0A])) ''l.py'' []
     = Some (\<lparr>files = [''l.py'' \<mapsto> ''# coding: latin-1'' @ [CHR 0x0A]],
              trace = [Getsize ''l.py'', Open_rb ''l.py'', Tokenize, Open_rb ''l.py'', Read_all,
                       Print RESET_ALL []]\<rparr>,
             Inr (PyStr ''iso-8859-1''))"
  by (simp add: module_eval params_eval cpython_eval CODECS_def)

text \<open>
  Claim C2 as amended: when \<^verbatim>\<open>tokenize.detect_encoding\<close> returns an encoding name and no
  size limit is set, \<^verbatim>\<open>detect_encoding\<close> returns that name. The name is not validated: the
  result is the same whatever the codecs of the interpreter do, and whatever the rest of the
  file holds.
\<close>

theorem declared_codec_is_returned:
  assumes "3 \<le> fst (version_info env)" and "7 \<le> snd (version_info env)"
    and "files w file_path = Some content"
    and "item (make_params kwargs) ''size'' = PyNone"
    and "tokenize_detect_encoding env file_path content = Inr name"
  shows "\<exists>tr. detect_encoding (env\<lparr>bytes_decode := decoders\<rparr>) w file_path kwargs
                = Some (w\<lparr>trace := tr\<rparr>, Inr (PyStr name))"
  using detect_encoding_of_declaration[of "env\<lparr>bytes_decode := decoders\<rparr>" w file_path content kwargs name]
    assms
  by auto

text \<open>
  The file \<^verbatim>\<open>b'# -*- coding: utf-8 -*-\n\xff\xfe'\<close>, which is not UTF-8, run with default
  options.
\<close>

theorem declared_codec_is_returned_witness:
  "\<exists>tr. detect_encoding (cpython candidates_lookup no_codecs)
          (one_file ''m.py'' (''# -*- coding: utf-8 -*-'' @ [CHR 0x0A, CHR 0xFF, CHR 0xFE]))
          ''m.py'' []
        = Some (one_file ''m.py'' (''# -*- coding: utf-8 -*-'' @ [CHR 0x0A, CHR 0xFF, CHR 0xFE])
                  \<lparr>trace := tr\<rparr>,
                Inr (PyStr ''utf-8''))"
proof -
  let ?env = "cpython candidates_lookup no_codecs"
  let ?content = "''# -*- coding: utf-8 -*-'' @ [CHR 0x0A, CHR 0xFF, CHR 0xFE]"
  have v: "3 \<le> fst (version_info ?env)" "7 \<le> snd (version_info ?env)"
    by (simp_all add: cpython_def)
  have f: "files (one_file ''m.py'' ?content) ''m.py'' = Some ?content"
    by (simp add: one_file_def)
  have s: "item (make_params []) ''size'' = PyNone"
    by (simp add: params_eval)
  have t: "tokenize_detect_encoding ?env ''m.py'' ?content = Inr ''utf-8''"
    by (simp add: cpython_eval CODECS_def)
  show ?thesis
    using declared_codec_is_returned[OF v f s t, of "bytes_decode ?env"] by simp
qed




text \<open>
  Claim C4: when \<^verbatim>\<open>params['size']\<close> is not \<^verbatim>\<open>None\<close> and the file size is below it,
  \<^verbatim>\<open>detect_encoding\<close> raises \<^verbatim>\<open>SystemExit\<close> right after the size check, with nothing but
  the size read; and whenever \<^verbatim>\<open>params['size']\<close> is not \<^verbatim>\<open>None\<close> the call ends in an
  exception, so it never returns a codec name. The file size is the double that
  \<^verbatim>\<open>round\<close> returns, and below is the comparison of line 93.
\<close>

theorem size_configured_never_returns:
  assumes "item (make_params kwargs) ''size'' \<noteq> PyNone"
  shows "(3 \<le> fst (version_info env) \<and> 7 \<le> snd (version_info env)
          \<and> files w file_path = Some content
          \<and> float_lt (file_size_mb (length content)) (item (make_params kwargs) ''size'') = Inr True
          \<longrightarrow> detect_encoding env w file_path kwargs
                = Some (log [Getsize file_path] w, Inl SystemExit))
         \<and> (\<exists>w' e. detect_encoding env w file_path kwargs = Some (w', Inl e))"
  using assms
  by (auto simp: detect_encoding_def size_guard_def Let_def split: option.splits sum.splits)

text \<open>
  A file of three bytes and \<^verbatim>\<open>size=1\<close>.
\<close>

theorem size_configured_never_returns_witness:
  "item (make_params [(''size'', PyNum 1)]) ''size'' \<noteq> PyNone
   \<and> float_lt (file_size_mb (length ''abc'')) (item (make_params [(''size'', PyNum 1)]) ''size'')
       = Inr True
   \<and> detect_encoding (cpython candidates_lookup no_codecs) (one_file ''s.txt'' ''abc'') ''s.txt''
        [(''size'', PyNum 1)]
       = Some (log [Getsize ''s.txt''] (one_file ''s.txt'' ''abc''), Inl SystemExit)"
proof -
  let ?env = "cpython candidates_lookup no_codecs"
  let ?kwargs = "[(''size'', PyNum 1)]"
  have s: "item (make_params ?kwargs) ''size'' \<noteq> PyNone"
    by (simp add: params_eval)
  have v: "3 \<le> fst (version_info ?env) \<and> 7 \<le> snd (version_info ?env)"
    by (simp add: cpython_def)
  have f: "files (one_file ''s.txt'' ''abc'') ''s.txt'' = Some ''abc''"
    by (simp add: one_file_def)
  have b: "float_lt (file_size_mb (length ''abc'')) (item (make_params ?kwargs) ''size'') = Inr True"
    by code_simp
  show ?thesis
    using size_configured_never_returns[OF s, of ?env "one_file ''s.txt'' ''abc''" "''s.txt''" "''abc''"]
      s v f b
    by simp
qed

text \<open>
  Claim C5: when the file size in megabytes exceeds the configured size (or equals it),
  \<^verbatim>\<open>detect_encoding\<close> ends in the \<^verbatim>\<open>AssertionError\<close> of line 93, an exception and not a
  returned value, and the log gains the size read only: no decode attempt has been made.
\<close>

theorem size_exceeded_aborts_before_decoding:
  assumes "3 \<le> fst (version_info env)" and "7 \<le> snd (version_info env)"
    and "files w file_path = Some content"
    and "item (make_params kwargs) ''size'' = PyNum limit"
    and "limit \<le> file_size_mb (length content)"
  shows "detect_encoding env w file_path kwargs
           = Some (log [Getsize file_path] w,
                   Inl (AssertionError ''The file size is greater than the set limit.''))
         \<and> decode_attempts (trace (log [Getsize file_path] w)) = decode_attempts (trace w)"
  using assms
  by (simp add: detect_encoding_def size_guard_def log_def decode_attempts_append)

text \<open>
  A file of 64 bytes, 0.0001 megabytes after rounding, and \<^verbatim>\<open>size=0.00005\<close>.
\<close>

theorem size_exceeded_aborts_before_decoding_witness:
  "(1 / 20000 :: rat) < file_size_mb (length ''0123456789012345678901234567890123456789012345678901234567890123'')
   \<and> detect_encoding (cpython candidates_lookup no_codecs)
        (one_file ''big.txt'' ''0123456789012345678901234567890123456789012345678901234567890123'')
        ''big.txt'' [(''size'', PyNum (1 / 20000))]
       = Some (\<lparr>files = [''big.txt'' \<mapsto>
                          ''0123456789012345678901234567890123456789012345678901234567890123''],
                trace = [Getsize ''big.txt'']\<rparr>,
               Inl (AssertionError ''The file size is greater than the set limit.''))
   \<and> decode_attempts [Getsize ''big.txt''] = []"
proof -
  let ?env = "cpython candidates_lookup no_codecs"
  let ?content = "''0123456789012345678901234567890123456789012345678901234567890123''"
  let ?kwargs = "[(''size'', PyNum (1 / 20000))]"
  have v: "3 \<le> fst (version_info ?env)" "7 \<le> snd (version_info ?env)"
    by (simp_all add: cpython_def)
  have f: "files (one_file ''big.txt'' ?content) ''big.txt'' = Some ?content"
    by (simp add: one_file_def)
  have s: "item (make_params ?kwargs) ''size'' = PyNum (1 / 20000)"
    by (simp add: params_eval)
  have n: "file_size_mb (length ?content) = 7378697629483821 / 73786976294838206464"
    by code_simp
  have c: "(1 / 20000 :: rat) \<le> file_size_mb (length ?content)"
    unfolding n by simp
  have lt: "(1 / 20000 :: rat) < file_size_mb (length ?content)"
    unfolding n by simp
  have w: "log [Getsize ''big.txt''] (one_file ''big.txt'' ?content)
             = \<lparr>files = [''big.txt'' \<mapsto> ?content], trace = [Getsize ''big.txt'']\<rparr>"
    by (simp add: log_def one_file_def)
  have d: "decode_attempts [Getsize ''big.txt''] = []"
    by simp
  from size_exceeded_aborts_before_decoding[OF v f s c]
  have "detect_encoding ?env (one_file ''big.txt'' ?content) ''big.txt'' ?kwargs
          = Some (log [Getsize ''big.txt''] (one_file ''big.txt'' ?content),
                  Inl (AssertionError ''The file size is greater than the set limit.''))"
    by (rule conjunct1)
  with lt w d show ?thesis by (simp only: simp_thms)
qed

text \<open>
  Claim C6: a \<^verbatim>\<open>SyntaxError\<close> of the declaration scan that is not about a missing
  declaration is raised again. The module does not do this: the test of line 104 is a chained
  comparison that is false for every message (lemma \<open>reraise_test_False\<close>), so every
  \<^verbatim>\<open>SyntaxError\<close> is handled by the trial decoding. For the file \<^verbatim>\<open>b'# coding: foo\n'\<close>,
  \<^verbatim>\<open>tokenize.detect_encoding\<close> raises \<^verbatim>\<open>SyntaxError("unknown encoding for 'f.py': foo")\<close>,
  whose message does not hold \<^verbatim>\<open>'invalid or missing encoding declaration for'\<close>, and
  \<^verbatim>\<open>detect_encoding\<close> returns \<^verbatim>\<open>'ascii'\<close>.
\<close>

theorem syntax_error_never_reraised:
  "tokenize_detect_encoding (cpython candidates_lookup other) ''f.py'' (''# coding: foo'' @ [CHR 0x0A])
     = Inl (SyntaxError (''unknown encoding for '' @ [CHR 0x27] @ ''f.py'' @ [CHR 0x27] @ '': foo''))
   \<and> \<not> contains ''invalid or missing encoding declaration for''
          (''unknown encoding for '' @ [CHR 0x27] @ ''f.py'' @ [CHR 0x27] @ '': foo'')
   \<and> detect_encoding (cpython candidates_lookup other)
        (one_file ''f.py'' (''# coding: foo'' @ [CHR 0x0A])) ''f.py'' []
     = Some (\<lparr>files = [''f.py'' \<mapsto> ''# coding: foo'' @ [CHR 0x0A]],
              trace = [Getsize ''f.py'', Open_rb ''f.py'', Tokenize, Open_rb ''f.py'', Read_all,
                       Decode ''ascii'', Print RESET_ALL []]\<rparr>,
             Inr (PyStr ''ascii''))"
  by (simp add: module_eval params_eval cpython_eval CODECS_def)

text \<open>
  Claim C7: \<^verbatim>\<open>attempt_decode\<close> returns \<^verbatim>\<open>True\<close> when the decoding succeeds and
  \<^verbatim>\<open>False\<close> when it raises \<^verbatim>\<open>UnicodeDecodeError\<close>, and lets every other error through.
  The module does not do the last: the \<^verbatim>\<open>return\<close> in the \<^verbatim>\<open>finally\<close> clause discards
  every pending exception, so the call returns \<^verbatim>\<open>False\<close> for every error. With a codec
  name that the interpreter does not know, the \<^verbatim>\<open>LookupError\<close> of \<^verbatim>\<open>decode\<close> is lost.
\<close>

theorem attempt_decode_swallows_every_error:
  "attempt_decode env text codec = Inr (bytes_decode env codec text = Inr ())
   \<and> attempt_decode (cpython lookup no_codecs) ''abc'' ''no-such-codec'' = Inr False
   \<and> bytes_decode (cpython lookup no_codecs) ''no-such-codec'' ''abc'' = Inl LookupError"
  by (simp add: attempt_decode_eq cpython_def cpython_decode_def no_codecs_def)

text \<open>
  Claim C10: when the declaration scan yields a codec name, \<^verbatim>\<open>detect_encoding\<close> does not
  read the file again. The module does: the second \<^verbatim>\<open>with\<close> block of lines 115 to 120 is not
  guarded. For the file \<^verbatim>\<open>b'# -*- coding: utf-8 -*-\n'\<close> the scan yields \<^verbatim>\<open>'utf-8'\<close> and
  the log still holds a \<^verbatim>\<open>file.read()\<close> after it.
\<close>

theorem declared_file_is_read_again:
  "tokenize_detect_encoding (cpython candidates_lookup no_codecs) ''m.py''
       (''# -*- coding: utf-8 -*-'' @ [CHR 0x0A])
     = Inr ''utf-8''
   \<and> detect_encoding (cpython candidates_lookup no_codecs)
        (one_file ''m.py'' (''# -*- coding: utf-8 -*-'' @ [CHR 0x0A])) ''m.py'' []
     = Some (\<lparr>files = [''m.py'' \<mapsto> ''# -*- coding: utf-8 -*-'' @ [CHR 0x0A]],
              trace = [Getsize ''m.py'', Open_rb ''m.py'', Tokenize, Open_rb ''m.py'', Read_all,
                       Print RESET_ALL []]\<rparr>,
             Inr (PyStr ''utf-8''))
   \<and> Read_all \<in> set [Getsize ''m.py'', Open_rb ''m.py'', Tokenize, Open_rb ''m.py'', Read_all,
                       Print RESET_ALL []]"
  by (simp add: module_eval params_eval cpython_eval CODECS_def)

text \<open>
  Claim C10 as amended: when the declaration scan yields a codec name and no size limit is
  set, \<^verbatim>\<open>detect_encoding\<close> makes no decode attempt and returns the name; it opens the file a
  second time all the same and reads it, whole or its first line as \<^verbatim>\<open>full_check\<close> says.
\<close>

theorem declared_codec_skips_trials_only:
  assumes "3 \<le> fst (version_info env)" and "7 \<le> snd (version_info env)"
    and "files w file_path = Some content"
    and "item (make_params kwargs) ''size'' = PyNone"
    and "tokenize_detect_encoding env file_path content = Inr name"
  shows "\<exists>w'. detect_encoding env w file_path kwargs = Some (w', Inr (PyStr name))
           \<and> trace w' = trace w @
                [Getsize file_path, Open_rb file_path, Tokenize, Open_rb file_path,
                 if truthy (item (make_params kwargs) ''full_check'') then Read_all
                 else Read_line,
                 Print RESET_ALL []]
           \<and> decode_attempts (trace w') = decode_attempts (trace w)"
  using detect_encoding_of_declaration[OF assms]
  by (simp add: decode_attempts_append)

text \<open>
  A Latin-1 file with a cookie, run with \<^verbatim>\<open>full_check=False\<close>.
\<close>

theorem declared_codec_skips_trials_only_witness:
  "\<exists>w'. detect_encoding (cpython candidates_lookup no_codecs)
           (one_file ''l.py'' (''# vim: set fileencoding=latin-1 :'' @ [CHR 0x0A, CHR 0xE9]))
           ''l.py'' [(''full_check'', PyBool False)]
         = Some (w', Inr (PyStr ''iso-8859-1''))
      \<and> trace w' = [Getsize ''l.py'', Open_rb ''l.py'', Tokenize, Open_rb ''l.py'', Read_line,
                     Print RESET_ALL []]
      \<and> decode_attempts (trace w') = []"
proof -
  let ?env = "cpython candidates_lookup no_codecs"
  let ?content = "''# vim: set fileencoding=latin-1 :'' @ [CHR 0x0A, CHR 0xE9]"
  let ?kwargs = "[(''full_check'', PyBool False)]"
  have v: "3 \<le> fst (version_info ?env)" "7 \<le> snd (version_info ?env)"
    by (simp_all add: cpython_def)
  have f: "files (one_file ''l.py'' ?content) ''l.py'' = Some ?content"
    by (simp add: one_file_def)
  have s: "item (make_params ?kwargs) ''size'' = PyNone"
    by (simp add: params_eval)
  have t: "tokenize_detect_encoding ?env ''l.py'' ?content = Inr ''iso-8859-1''"
    by (simp add: cpython_eval CODECS_def)
  have c: "\<not> truthy (item (make_params ?kwargs) ''full_check'')"
    by (simp add: params_eval)
  show ?thesis
    using declared_codec_skips_trials_only[OF v f s t] c
    by (simp add: one_file_def)
qed

text \<open>
  Claim C8: there is a file, UTF-8 on line 1 and not UTF-8 on line 2, without a cookie, for
  which \<^verbatim>\<open>detect_encoding\<close> returns \<^verbatim>\<open>'utf-8'\<close> with \<^verbatim>\<open>full_check=False\<close> and another
  codec with \<^verbatim>\<open>full_check=True\<close>. There is no such file, with or without a cookie, on any
  CPython: when the first call returns \<^verbatim>\<open>'utf-8'\<close> the name comes from the declaration scan,
  which does not look at \<^verbatim>\<open>full_check\<close>, and the second call returns it too.
\<close>

theorem utf8_result_ignores_full_check:
  "\<not> (\<exists>lookup other w file_path w1 w2 codec.
        detect_encoding (cpython lookup other) w file_path [(''full_check'', PyBool False)]
          = Some (w1, Inr (PyStr ''utf-8''))
      \<and> detect_encoding (cpython lookup other) w file_path [(''full_check'', PyBool True)]
          = Some (w2, Inr (PyStr codec))
      \<and> codec \<noteq> ''utf-8'')"
proof
  assume "\<exists>lookup other w file_path w1 w2 codec.
        detect_encoding (cpython lookup other) w file_path [(''full_check'', PyBool False)]
          = Some (w1, Inr (PyStr ''utf-8''))
      \<and> detect_encoding (cpython lookup other) w file_path [(''full_check'', PyBool True)]
          = Some (w2, Inr (PyStr codec))
      \<and> codec \<noteq> ''utf-8''"
  then obtain lookup other w file_path w1 w2 codec where
    a: "detect_encoding (cpython lookup other) w file_path [(''full_check'', PyBool False)]
          = Some (w1, Inr (PyStr ''utf-8''))"
    and b: "detect_encoding (cpython lookup other) w file_path [(''full_check'', PyBool True)]
          = Some (w2, Inr (PyStr codec))"
    and c: "codec \<noteq> ''utf-8''"
    by blast
  from utf8_only_from_declaration[OF cpython_utf8_sig a]
  obtain content where f: "files w file_path = Some content"
    and t: "tokenize_detect_encoding (cpython lookup other) file_path content = Inr ''utf-8''"
    and v: "3 \<le> fst (version_info (cpython lookup other))"
           "7 \<le> snd (version_info (cpython lookup other))"
    by blast
  have s: "item (make_params [(''full_check'', PyBool True)]) ''size'' = PyNone"
    by (simp add: params_eval)
  from detect_encoding_of_declaration[OF v f s t] b have "codec = ''utf-8''" by simp
  with c show False by simp
qed

text \<open>
  Claim C8 as amended: there is a file, UTF-8 on line 1 (a comment) and not UTF-8 on line 2,
  without a cookie, for which \<^verbatim>\<open>detect_encoding\<close> returns \<^verbatim>\<open>'ascii'\<close> with
  \<^verbatim>\<open>full_check=False\<close> and a different, later codec of \<^verbatim>\<open>CODECS\<close> with
  \<^verbatim>\<open>full_check=True\<close>: the file \<^verbatim>\<open>b'#\n\xff\n'\<close>, whatever the codecs beyond the four
  written out do.
\<close>

theorem full_check_changes_trial_result:
  "utf8_valid (readline [CHR ''#'', CHR 0x0A, CHR 0xFF, CHR 0x0A])
   \<and> \<not> utf8_valid (readline (drop 2 [CHR ''#'', CHR 0x0A, CHR 0xFF, CHR 0x0A]))
   \<and> cookie_re_match (readline [CHR ''#'', CHR 0x0A, CHR 0xFF, CHR 0x0A]) = None
   \<and> detect_encoding (cpython lookup other)
         (one_file ''d.txt'' [CHR ''#'', CHR 0x0A, CHR 0xFF, CHR 0x0A]) ''d.txt''
         [(''full_check'', PyBool False)]
       = Some (\<lparr>files = [''d.txt'' \<mapsto> [CHR ''#'', CHR 0x0A, CHR 0xFF, CHR 0x0A]],
                trace = [Getsize ''d.txt'', Open_rb ''d.txt'', Tokenize, Open_rb ''d.txt'',
                         Read_line, Decode ''ascii'', Print RESET_ALL []]\<rparr>,
               Inr (PyStr ''ascii''))
   \<and> (\<exists>w' codec.
         detect_encoding (cpython lookup other)
           (one_file ''d.txt'' [CHR ''#'', CHR 0x0A, CHR 0xFF, CHR 0x0A]) ''d.txt''
           [(''full_check'', PyBool True)]
         = Some (w', Inr (PyStr codec))
         \<and> codec \<noteq> ''ascii'' \<and> codec \<in> set CODECS)"
proof -
  let ?env = "cpython lookup other"
  let ?content = "[CHR ''#'', CHR 0x0A, CHR 0xFF, CHR 0x0A]"
  let ?w = "one_file ''d.txt'' ?content"
  let ?kwargs = "[(''full_check'', PyBool True)]"
  let ?P = "\<lambda>codec. bytes_decode ?env codec ?content = Inr ()"
  have lines: "utf8_valid (readline ?content)"
      "\<not> utf8_valid (readline (drop 2 ?content))"
      "cookie_re_match (readline ?content) = None"
    by (simp_all add: cpython_eval)
  have short: "detect_encoding ?env ?w ''d.txt'' [(''full_check'', PyBool False)]
       = Some (\<lparr>files = [''d.txt'' \<mapsto> ?content],
                trace = [Getsize ''d.txt'', Open_rb ''d.txt'', Tokenize, Open_rb ''d.txt'',
                         Read_line, Decode ''ascii'', Print RESET_ALL []]\<rparr>,
               Inr (PyStr ''ascii''))"
    by (simp add: module_eval params_eval cpython_eval CODECS_def)
  have v: "3 \<le> fst (version_info ?env)" "7 \<le> snd (version_info ?env)"
    by (simp_all add: cpython_def)
  have f: "files ?w ''d.txt'' = Some ?content"
    by (simp add: one_file_def)
  have s: "item (make_params ?kwargs) ''size'' = PyNone"
    by (simp add: params_eval)
  have t: "tokenize_detect_encoding ?env ''d.txt'' ?content
             = Inl (SyntaxError (''invalid or missing encoding declaration for ''
                                 @ [CHR 0x27] @ ''d.txt'' @ [CHR 0x27]))"
    by (simp add: cpython_eval)
  have sample: "snd (read_contents (make_params ?kwargs) ''d.txt'' ?content) = ?content"
    by (simp add: read_contents_def params_eval)
  have latin: "''latin-1'' \<in> set CODECS" "?P ''latin-1''"
    by (simp_all add: CODECS_def cpython_def cpython_decode_def)
  have ascii: "\<not> ?P ''ascii''"
    by (simp add: cpython_def cpython_decode_def strict_def byte_in_def)
  from latin have "find ?P CODECS \<noteq> None"
    by (auto simp: find_None_iff)
  then obtain codec where fnd: "find ?P CODECS = Some codec"
    by auto
  then have "?P codec" and mem: "codec \<in> set CODECS"
    by (auto simp: find_Some_iff)
  with ascii have ne: "codec \<noteq> ''ascii''"
    by auto
  from detect_encoding_of_syntax_error[OF v f s t] fnd sample
  obtain tr where "detect_encoding ?env ?w ''d.txt'' ?kwargs
                     = Some (?w\<lparr>trace := tr\<rparr>, Inr (PyStr codec))"
    by auto
  with ne mem have "\<exists>w' codec. detect_encoding ?env ?w ''d.txt'' ?kwargs
                       = Some (w', Inr (PyStr codec))
                     \<and> codec \<noteq> ''ascii'' \<and> codec \<in> set CODECS"
    by blast
  with lines short show ?thesis by (simp only: simp_thms)
qed

text \<open>
  Claim C9: a second call on the same file with the same arguments yields what the first one
  did. A call that returns or raises leaves the files as they were, and its outcome does not
  depend on the log; so a call in the world the first one left ends with the same outcome.
\<close>

theorem detect_encoding_repeatable:
  assumes "detect_encoding env w file_path kwargs = Some (w1, r)"
  shows "files w1 = files w \<and> (\<exists>w2. detect_encoding env w1 file_path kwargs = Some (w2, r))"
proof -
  have fl: "files w1 = files w"
    using assms by (rule detect_encoding_files)
  have "map_option snd (detect_encoding env w1 file_path kwargs)
          = map_option snd (detect_encoding env w file_path kwargs)"
    using fl by (rule detect_encoding_trace_indep)
  with assms have "map_option snd (detect_encoding env w1 file_path kwargs) = Some r"
    by simp
  then have "\<exists>w2. detect_encoding env w1 file_path kwargs = Some (w2, r)"
    by (cases "detect_encoding env w1 file_path kwargs") auto
  with fl show ?thesis by simp
qed

text \<open>
  A file that is not UTF-8, detected as Latin-1 by trial decoding with \<^verbatim>\<open>verbose=True\<close>,
  twice.
\<close>

theorem detect_encoding_repeatable_witness:
  "\<exists>w1 w2.
     detect_encoding (cpython candidates_lookup no_codecs) (one_file ''r.txt'' [CHR 0xE9, CHR 0x0A])
       ''r.txt'' [(''verbose'', PyBool True)] = Some (w1, Inr (PyStr ''latin-1''))
     \<and> files w1 = files (one_file ''r.txt'' [CHR 0xE9, CHR 0x0A])
     \<and> detect_encoding (cpython candidates_lookup no_codecs) w1
       ''r.txt'' [(''verbose'', PyBool True)] = Some (w2, Inr (PyStr ''latin-1''))"
proof -
  let ?env = "cpython candidates_lookup no_codecs"
  let ?w = "one_file ''r.txt'' [CHR 0xE9, CHR 0x0A]"
  let ?kwargs = "[(''verbose'', PyBool True)]"
  have "\<exists>w1. detect_encoding ?env ?w ''r.txt'' ?kwargs = Some (w1, Inr (PyStr ''latin-1''))"
    by (simp add: module_eval params_eval cpython_eval CODECS_def)
  then obtain w1 where
    first: "detect_encoding ?env ?w ''r.txt'' ?kwargs = Some (w1, Inr (PyStr ''latin-1''))" ..
  from detect_encoding_repeatable[OF first] first show ?thesis by blast
qed

end
